theory Spec2Isabelle
  imports Complex_Main
begin

section \<open>Numbers, dates and identifiers\<close>

text \<open>
  The backend stores every rating and every aggregate as a JavaScript Number. The model
  uses exact rationals for them: sums, products and quotients are the mathematical ones,
  and the rounding of IEEE doubles is outside the model. A quotient whose divisor is zero
  is NaN or an infinity in JavaScript; \<open>js_div\<close> returns \<open>None\<close> there, and the callers
  below treat \<open>None\<close> as the value that Mongoose refuses to save. Counters start at 0 and
  are only ever incremented, so they are natural numbers. A Date is its number of
  milliseconds since the epoch; an ObjectId is a natural number.
\<close>

type_synonym date = int
type_synonym object_id = nat

definition js_div :: "rat \<Rightarrow> rat \<Rightarrow> rat option" where
  "js_div a b = (if b = 0 then None else Some (a / b))"

text \<open>\<open>Math.round\<close>: the nearest integer, a tie going towards plus infinity.\<close>

definition Math_round :: "rat \<Rightarrow> rat" where
  "Math_round x = of_int \<lfloor>x + 1 / 2\<rfloor>"

text \<open>The arithmetic mean of a non-empty list; the empty list has no mean.\<close>

definition mean :: "rat list \<Rightarrow> rat option" where
  "mean xs = (if xs = [] then None else Some (sum_list xs / of_nat (length xs)))"

section \<open>The four rating categories\<close>

text \<open>
  Every document that carries per-category data has the four keys \<open>taste\<close>, \<open>quantity\<close>,
  \<open>freshness\<close> and \<open>value\<close>; the code walks them with
  \<^verbatim>\<open>["taste", "quantity", "freshness", "value"].forEach\<close>.
\<close>

record 'a categories =
  taste :: 'a
  quantity :: 'a
  freshness :: 'a
  value' :: 'a

datatype category = Taste | Quantity | Freshness | Value

definition all_categories :: "category list" where
  "all_categories = [Taste, Quantity, Freshness, Value]"

fun cat_get :: "category \<Rightarrow> 'a categories \<Rightarrow> 'a" where
  "cat_get Taste c = taste c"
| "cat_get Quantity c = quantity c"
| "cat_get Freshness c = freshness c"
| "cat_get Value c = value' c"

fun cat_set :: "category \<Rightarrow> 'a \<Rightarrow> 'a categories \<Rightarrow> 'a categories" where
  "cat_set Taste v c = c\<lparr>taste := v\<rparr>"
| "cat_set Quantity v c = c\<lparr>quantity := v\<rparr>"
| "cat_set Freshness v c = c\<lparr>freshness := v\<rparr>"
| "cat_set Value v c = c\<lparr>value' := v\<rparr>"

section \<open>MenuItem: the running aggregate\<close>

text \<open>
  Of the MenuItem schema the model keeps the rating aggregate (\<open>totalRatings\<close>,
  \<open>averageRating\<close>, \<open>categoryRatings\<close>) and \<open>lastUpdated\<close>; the descriptive
  fields are never read or written by the rating code.
\<close>

record cat_stat =
  average :: rat
  count :: nat

record menu_item =
  totalRatings :: nat
  averageRating :: rat
  categoryRatings :: "cat_stat categories"
  lastUpdated :: date

text \<open>The argument of \<open>updateRatings\<close>; a category may be \<open>undefined\<close>.\<close>

record new_rating =
  overall :: rat
  nr_categories :: "rat option categories"

definition updateCategory :: "new_rating \<Rightarrow> category \<Rightarrow> menu_item \<Rightarrow> menu_item" where
  "updateCategory newRating category this =
     (case cat_get category (nr_categories newRating) of
        None \<Rightarrow> this
      | Some v \<Rightarrow>
          (let categoryData = cat_get category (categoryRatings this);
               totalCategoryScore = average categoryData * of_nat (count categoryData) + v;
               count' = count categoryData + 1
           in this\<lparr>categoryRatings :=
                cat_set category
                  \<lparr>average = totalCategoryScore / of_nat count', count = count'\<rparr>
                  (categoryRatings this)\<rparr>))"

definition updateRatings :: "menu_item \<Rightarrow> new_rating \<Rightarrow> date \<Rightarrow> menu_item" where
  "updateRatings this newRating today =
     (let totalScore = averageRating this * of_nat (totalRatings this) + overall newRating;
          totalRatings' = totalRatings this + 1;
          this1 = this\<lparr>totalRatings := totalRatings',
                       averageRating := totalScore / of_nat totalRatings'\<rparr>;
          this2 = fold (updateCategory newRating) all_categories this1
      in this2\<lparr>lastUpdated := today\<rparr>)"

text \<open>
  The schema bounds checked by \<open>save\<close>: \<open>averageRating\<close> and each category average have
  \<open>min: 0, max: 5\<close>.
\<close>

definition menu_item_valid :: "menu_item \<Rightarrow> bool" where
  "menu_item_valid m \<longleftrightarrow>
     0 \<le> averageRating m \<and> averageRating m \<le> 5 \<and>
     list_all (\<lambda>c. 0 \<le> average (cat_get c (categoryRatings m)) \<and>
                    average (cat_get c (categoryRatings m)) \<le> 5) all_categories"

section \<open>Responses\<close>

text \<open>
  A handler answers with an HTTP status and a message. Each failure the modelled handlers
  can produce is one constructor; \<open>status_code\<close> gives the status the code sends with it.
  In the vocabulary of the specification, \<open>AlreadyRated\<close>, \<open>AlreadyPublished\<close>,
  \<open>FacilityExists\<close> and \<open>MessExists\<close> are conflicts, the \<open>...NotFound\<close> failures are
  not-found errors, and \<open>OutsideMealWindow\<close>, \<open>UpdateWindowExpired\<close>,
  \<open>DeleteWindowExpired\<close> and \<open>NoMenuItems\<close> are invalid-state errors. \<open>DuplicateKey\<close> is
  not an answer but the exception of the database for a violated unique index (error
  code 11000), which the handlers translate.
\<close>

datatype error =
    NotAuthorizedRole
  | InvalidMealType
  | OutsideMealWindow
  | ValidationFailed
  | AlreadyRated
  | MenuItemNotFound
  | DailyMenuNotFound
  | SchemaValidationError
  | InvalidVoteType
  | RatingNotFound
  | OwnRating
  | UpdateWindowExpired
  | DeleteWindowExpired
  | AlreadyPublished
  | NoMenuItems
  | FacilityExists
  | FacilityNotFound
  | MessExists
  | DuplicateKey
  | ServerError

datatype response = Success nat | Failure error

fun status_code :: "response \<Rightarrow> nat" where
  "status_code (Success n) = n"
| "status_code (Failure NotAuthorizedRole) = 403"
| "status_code (Failure MenuItemNotFound) = 404"
| "status_code (Failure DailyMenuNotFound) = 404"
| "status_code (Failure RatingNotFound) = 404"
| "status_code (Failure FacilityNotFound) = 404"
| "status_code (Failure ServerError) = 500"
| "status_code (Failure _) = 400"

section \<open>Rating, DailyMenu, the principal and the store\<close>

datatype mess_type = College_mess | Hostel_mess
datatype facility_type = College | Hostel
datatype role = Student | Mess_admin
datatype menu_status = Draft | Published | Active | Completed | Cancelled

record voter =
  user :: object_id
  vote :: string
  votedAt :: date

record helpful_votes =
  upvotes :: nat
  downvotes :: nat
  voters :: "voter list"

text \<open>
  A Rating document. Review text, photos, emoji and device data are stored and returned
  as they come and take no part in any check or aggregate, so they are left out.
\<close>

record rating =
  student :: object_id
  menuItem :: object_id
  dailyMenu :: object_id
  overallRating :: rat
  r_categoryRatings :: "rat categories"
  mealType :: string
  mealDate :: date
  facilityId :: string
  messType :: mess_type
  helpfulVotes :: helpful_votes
  isActive :: bool
  createdAt :: date

record rating_stats =
  rs_totalRatings :: nat
  rs_averageRating :: rat
  categoryAverages :: "rat categories"
  participationRate :: rat
  rs_lastUpdated :: "date option"

text \<open>
  A DailyMenu document: its tenant scope, its status, the ids of its item entries, the
  expected head count and its own aggregate.
\<close>

record daily_menu =
  dm_facilityId :: string
  dm_messType :: mess_type
  status :: menu_status
  menuItems :: "object_id list"
  expectedStudents :: "rat option"
  ratingStats :: rating_stats
  lastModifiedBy :: "object_id option"

text \<open>
  The authenticated principal \<open>req.user\<close>. Both facility pointers are nested paths of the
  User schema, so both are always present as objects whose fields may be unset.
\<close>

record facility_ref =
  ref_facilityId :: "string option"
  ref_facilityType :: "facility_type option"

record principal =
  uid :: object_id
  role :: role
  adminFacility :: facility_ref
  selectedFacility :: facility_ref

text \<open>
  The clock of one request: \<open>Date.now()\<close>, and the local \<open>getHours()\<close> and
  \<open>getMinutes()\<close> of the same instant.
\<close>

record env =
  now :: date
  hour :: nat
  minute :: nat

text \<open>
  The three collections. Ratings are never removed, so a rating's id is its position in
  the list; menu items and daily menus are looked up by id.
\<close>

record state =
  Ratings :: "rating list"
  MenuItems :: "object_id \<rightharpoonup> menu_item"
  DailyMenus :: "object_id \<rightharpoonup> daily_menu"

section \<open>The meal-time window (middleware timeRestriction)\<close>

definition toLowerCase_char :: "char \<Rightarrow> char" where
  "toLowerCase_char c =
     (let n = (of_char c :: nat) in if 65 \<le> n \<and> n \<le> 90 then char_of (n + 32) else c)"

definition toLowerCase :: "string \<Rightarrow> string" where
  "toLowerCase s = map toLowerCase_char s"

definition mealTimes :: "string \<Rightarrow> (rat \<times> rat) option" where
  "mealTimes m =
     (if m = ''breakfast'' then Some (8, 11)
      else if m = ''lunch'' then Some (12, 16)
      else if m = ''dinner'' then Some (19, 23)
      else None)"

text \<open>
  The middleware; \<open>None\<close> stands for the call of \<open>next()\<close>. \<open>mealTimes\<close> is the object
  literal of the three windows, read at its own keys: a request whose meal type is the
  name of an inherited object property is answered here as an invalid meal type, where
  the code leaves the rejection to \<open>validateRating\<close>.
\<close>

definition validateMealTime :: "env \<Rightarrow> string \<Rightarrow> error option" where
  "validateMealTime e mealType' =
     (let currentTime = of_nat (hour e) + of_nat (minute e) / 60
      in if mealType' = [] then Some InvalidMealType
         else case mealTimes (toLowerCase mealType') of
                None \<Rightarrow> Some InvalidMealType
              | Some (start, end') \<Rightarrow>
                  if currentTime < start \<or> currentTime > end' then Some OutsideMealWindow
                  else None)"

section \<open>Submitting a rating\<close>

text \<open>
  The body of \<^verbatim>\<open>POST /api/ratings\<close>, with the fields the handler reads. The numbers
  are JSON numbers.
\<close>

record rating_body =
  menuItemId :: object_id
  dailyMenuId :: object_id
  b_overallRating :: rat
  b_categoryRatings :: "rat categories"
  b_mealType :: string
  b_mealDate :: date
  b_facilityId :: "string option"

text \<open>
  The rules of \<open>validateRating\<close> on these fields: \<open>isInt({min: 1, max: 5})\<close> for the five
  scores, \<open>isIn\<close> for the meal type, and a facility id that is not empty when one is sent.
  Facility ids are taken as trimmed strings.
\<close>

definition isInt_1_5 :: "rat \<Rightarrow> bool" where
  "isInt_1_5 x \<longleftrightarrow> of_int \<lfloor>x\<rfloor> = x \<and> 1 \<le> x \<and> x \<le> 5"

definition mealType_enum :: "string list" where
  "mealType_enum = [''breakfast'', ''lunch'', ''dinner'', ''snack'']"

definition validateRating :: "rating_body \<Rightarrow> bool" where
  "validateRating b \<longleftrightarrow>
     isInt_1_5 (b_overallRating b) \<and>
     list_all (\<lambda>c. isInt_1_5 (cat_get c (b_categoryRatings b))) all_categories \<and>
     b_mealType b \<in> set mealType_enum \<and>
     (case b_facilityId b of None \<Rightarrow> True | Some f \<Rightarrow> f \<noteq> [])"

text \<open>
  \<open>Rating.findOne({student, menuItem, mealDate, mealType})\<close>: the first rating with the
  compound key, active or not.
\<close>

definition Rating_findOne :: "object_id \<Rightarrow> object_id \<Rightarrow> date \<Rightarrow> string \<Rightarrow> rating list \<Rightarrow> rating option" where
  "Rating_findOne studentId itemId date' mealType' rs =
     find (\<lambda>r. student r = studentId \<and> menuItem r = itemId \<and> mealDate r = date' \<and>
               mealType r = mealType') rs"

text \<open>JavaScript's \<open>a || b\<close> on optional strings: the empty string is falsy.\<close>

definition or_else :: "string option \<Rightarrow> string option \<Rightarrow> string option" where
  "or_else a b = (case a of None \<Rightarrow> b | Some x \<Rightarrow> if x = [] then b else a)"

text \<open>
  The Rating schema's validators run by \<open>Rating.create\<close>: the five scores are required
  Numbers with \<open>min: 1, max: 5\<close>, \<open>mealType\<close> is one of the enum, \<open>facilityId\<close> is a
  required String.
\<close>

definition in_1_5 :: "rat \<Rightarrow> bool" where
  "in_1_5 x \<longleftrightarrow> 1 \<le> x \<and> x \<le> 5"

definition categories_in_1_5 :: "rat categories \<Rightarrow> bool" where
  "categories_in_1_5 cr \<longleftrightarrow> list_all (\<lambda>c. in_1_5 (cat_get c cr)) all_categories"

definition Rating_create :: "env \<Rightarrow> object_id \<Rightarrow> rating_body \<Rightarrow> string option \<Rightarrow> mess_type \<Rightarrow> rating option" where
  "Rating_create e studentId b facilityId' messType' =
     (case facilityId' of
        None \<Rightarrow> None
      | Some f \<Rightarrow>
          if f \<noteq> [] \<and> in_1_5 (b_overallRating b) \<and> categories_in_1_5 (b_categoryRatings b) \<and>
             b_mealType b \<in> set mealType_enum
          then Some \<lparr>student = studentId, menuItem = menuItemId b, dailyMenu = dailyMenuId b,
                     overallRating = b_overallRating b,
                     r_categoryRatings = b_categoryRatings b,
                     mealType = b_mealType b, mealDate = b_mealDate b,
                     facilityId = f, messType = messType',
                     helpfulVotes = \<lparr>upvotes = 0, downvotes = 0, voters = []\<rparr>,
                     isActive = True, createdAt = now e\<rparr>
          else None)"

text \<open>
  The DailyMenu side of \<open>submitRating\<close>, and \<open>updateParticipationRate\<close>. The guard
  \<^verbatim>\<open>if (!categoryData[category]) categoryData[category] = 0\<close> replaces a missing or zero
  average by zero; the averages of the model are always present, so it changes nothing.
\<close>

definition updateParticipationRate :: "daily_menu \<Rightarrow> daily_menu" where
  "updateParticipationRate this =
     (case expectedStudents this of
        None \<Rightarrow> this
      | Some n \<Rightarrow>
          if n > 0
          then this\<lparr>ratingStats := (ratingStats this)
                 \<lparr>participationRate :=
                    Math_round (of_nat (rs_totalRatings (ratingStats this)) / n * 100)\<rparr>\<rparr>
          else this)"

definition updateCategoryAverage :: "rat categories \<Rightarrow> nat \<Rightarrow> category \<Rightarrow> rat categories \<Rightarrow> rat categories" where
  "updateCategoryAverage categoryRatings' total' category categoryData =
     (let categoryTotal = cat_get category categoryData * of_nat (total' - 1) +
                          cat_get category categoryRatings'
      in cat_set category (categoryTotal / of_nat total') categoryData)"

definition updateDailyMenuStats :: "daily_menu \<Rightarrow> rat \<Rightarrow> rat categories \<Rightarrow> date \<Rightarrow> daily_menu" where
  "updateDailyMenuStats dailyMenu' overallRating' categoryRatings' today =
     (let st = ratingStats dailyMenu';
          total' = rs_totalRatings st + 1;
          totalScore = rs_averageRating st * of_nat (total' - 1) + overallRating';
          st' = st\<lparr>rs_totalRatings := total',
                   rs_averageRating := totalScore / of_nat total',
                   categoryAverages :=
                     fold (updateCategoryAverage categoryRatings' total') all_categories
                          (categoryAverages st),
                   rs_lastUpdated := Some today\<rparr>
      in updateParticipationRate (dailyMenu'\<lparr>ratingStats := st'\<rparr>))"

definition daily_menu_valid :: "daily_menu \<Rightarrow> bool" where
  "daily_menu_valid d \<longleftrightarrow>
     0 \<le> rs_averageRating (ratingStats d) \<and> rs_averageRating (ratingStats d) \<le> 5 \<and>
     list_all (\<lambda>c. 0 \<le> cat_get c (categoryAverages (ratingStats d)) \<and>
                    cat_get c (categoryAverages (ratingStats d)) \<le> 5) all_categories"

text \<open>
  The object that \<open>submitRating\<close> hands to \<open>updateRatings\<close>: the submitted overall
  score and the four submitted category scores.
\<close>

definition submitted :: "rating_body \<Rightarrow> new_rating" where
  "submitted b =
     \<lparr>overall = b_overallRating b,
      nr_categories =
        \<lparr>taste = Some (taste (b_categoryRatings b)),
         quantity = Some (quantity (b_categoryRatings b)),
         freshness = Some (freshness (b_categoryRatings b)),
         value' = Some (value' (b_categoryRatings b))\<rparr>\<rparr>"

text \<open>
  The handler \<open>submitRating\<close>. Each \<open>save\<close> is a write of its own: when a later step
  throws, the earlier writes stay.
\<close>

definition submitRating :: "env \<Rightarrow> principal \<Rightarrow> rating_body \<Rightarrow> state \<Rightarrow> response \<times> state" where
  "submitRating e u b s =
     (let studentId = uid u;
          facilityId' = or_else (ref_facilityId (adminFacility u))
                          (or_else (ref_facilityId (selectedFacility u)) (b_facilityId b));
          messType' = (if ref_facilityType (adminFacility u) = Some College
                       then College_mess else Hostel_mess)
      in case Rating_findOne studentId (menuItemId b) (b_mealDate b) (b_mealType b) (Ratings s) of
           Some existingRating \<Rightarrow> (Failure AlreadyRated, s)
         | None \<Rightarrow>
         (case MenuItems s (menuItemId b) of
            None \<Rightarrow> (Failure MenuItemNotFound, s)
          | Some menuItem' \<Rightarrow>
          (case DailyMenus s (dailyMenuId b) of
             None \<Rightarrow> (Failure DailyMenuNotFound, s)
           | Some dailyMenu' \<Rightarrow>
           (case Rating_create e studentId b facilityId' messType' of
              None \<Rightarrow> (Failure SchemaValidationError, s)
            | Some rating' \<Rightarrow>
                (let s1 = s\<lparr>Ratings := Ratings s @ [rating']\<rparr>;
                     menuItem2 = updateRatings menuItem' (submitted b) (now e)
                 in if \<not> menu_item_valid menuItem2 then (Failure SchemaValidationError, s1)
                    else
                      (let s2 = s1\<lparr>MenuItems := (MenuItems s1)(menuItemId b \<mapsto> menuItem2)\<rparr>;
                           dailyMenu2 = updateDailyMenuStats dailyMenu' (b_overallRating b)
                                          (b_categoryRatings b) (now e)
                       in if \<not> daily_menu_valid dailyMenu2
                          then (Failure SchemaValidationError, s2)
                          else (Success 201,
                                s2\<lparr>DailyMenus := (DailyMenus s2)(dailyMenuId b \<mapsto> dailyMenu2)\<rparr>)))))))"

text \<open>
  The route \<^verbatim>\<open>router.post("/", authorize("student"), validateMealTime, validateRating,
  submitRating)\<close>: the middlewares run in this order, each one answering itself when it
  rejects.
\<close>

definition post_rating :: "env \<Rightarrow> principal \<Rightarrow> rating_body \<Rightarrow> state \<Rightarrow> response \<times> state" where
  "post_rating e u b s =
     (if role u \<noteq> Student then (Failure NotAuthorizedRole, s)
      else case validateMealTime e (b_mealType b) of
             Some err \<Rightarrow> (Failure err, s)
           | None \<Rightarrow>
               if \<not> validateRating b then (Failure ValidationFailed, s)
               else submitRating e u b s)"

text \<open>
  A run of submissions, one request after the other; the run is \<open>None\<close> as soon as one
  request is not accepted.
\<close>

fun submit_all :: "(env \<times> principal \<times> rating_body) list \<Rightarrow> state \<Rightarrow> state option" where
  "submit_all [] s = Some s"
| "submit_all ((e, u, b) # reqs) s =
     (case post_rating e u b s of
        (Success n, s') \<Rightarrow> submit_all reqs s'
      | (Failure err, s') \<Rightarrow> None)"


section \<open>Helpfulness votes\<close>

definition addHelpfulVote :: "rating \<Rightarrow> object_id \<Rightarrow> string \<Rightarrow> date \<Rightarrow> rating" where
  "addHelpfulVote this userId voteType today =
     (let voters1 = filter (\<lambda>voter. user voter \<noteq> userId) (voters (helpfulVotes this));
          voters2 = voters1 @ [\<lparr>user = userId, vote = voteType, votedAt = today\<rparr>];
          upvotes' = length (filter (\<lambda>v. vote v = ''up'') voters2);
          downvotes' = length (filter (\<lambda>v. vote v = ''down'') voters2)
      in this\<lparr>helpfulVotes :=
                \<lparr>upvotes = upvotes', downvotes = downvotes', voters = voters2\<rparr>\<rparr>)"

definition Rating_findById :: "object_id \<Rightarrow> rating list \<Rightarrow> rating option" where
  "Rating_findById ratingId rs = (if ratingId < length rs then Some (rs ! ratingId) else None)"

definition voteOnRating :: "env \<Rightarrow> principal \<Rightarrow> object_id \<Rightarrow> string \<Rightarrow> state \<Rightarrow> response \<times> state" where
  "voteOnRating e u ratingId voteType s =
     (let userId = uid u
      in if voteType \<notin> set [''up'', ''down''] then (Failure InvalidVoteType, s)
         else case Rating_findById ratingId (Ratings s) of
                None \<Rightarrow> (Failure RatingNotFound, s)
              | Some rating' \<Rightarrow>
                  if student rating' = userId then (Failure OwnRating, s)
                  else (Success 200,
                        s\<lparr>Ratings := (Ratings s)
                             [ratingId := addHelpfulVote rating' userId voteType (now e)]\<rparr>))"

text \<open>The votes of one user on one rating, call after call; rejected calls change nothing.\<close>

fun vote_all :: "principal \<Rightarrow> object_id \<Rightarrow> (env \<times> string) list \<Rightarrow> state \<Rightarrow> state" where
  "vote_all u ratingId [] s = s"
| "vote_all u ratingId ((e, voteType) # calls) s =
     vote_all u ratingId calls (snd (voteOnRating e u ratingId voteType s))"

definition ledger_counted :: "rating \<Rightarrow> bool" where
  "ledger_counted r \<longleftrightarrow>
     upvotes (helpfulVotes r) = length (filter (\<lambda>v. vote v = ''up'') (voters (helpfulVotes r))) \<and>
     downvotes (helpfulVotes r) = length (filter (\<lambda>v. vote v = ''down'') (voters (helpfulVotes r)))"

section \<open>Editing and deleting a rating\<close>

text \<open>
  The body of \<^verbatim>\<open>PUT /api/ratings/:ratingId\<close>: \<open>categoryRatings\<close> may be absent, and
  when it is present each of its keys may be absent. The route has no body validation.
  \<open>review\<close> and \<open>emojiReaction\<close> are copied to the rating and used by nothing else; the
  model covers the requests whose review and emoji, if any, pass the schema.
\<close>

record update_body =
  u_categoryRatings :: "rat option categories option"

text \<open>\<open>Rating.findOne({_id: ratingId, student: studentId})\<close>.\<close>

definition Rating_findOwned :: "object_id \<Rightarrow> object_id \<Rightarrow> rating list \<Rightarrow> rating option" where
  "Rating_findOwned ratingId studentId rs =
     (if ratingId < length rs \<and> student (rs ! ratingId) = studentId
      then Some (rs ! ratingId) else None)"

definition hoursSince :: "env \<Rightarrow> rating \<Rightarrow> rat" where
  "hoursSince e r = of_int (now e - createdAt r) / (1000 * 60 * 60)"

text \<open>
  The four category values of the body when all of them are present. With a key
  missing the required validator of the schema fails and the computed overall rating is
  NaN, so \<open>rating.save()\<close> throws.
\<close>

definition all_defined :: "rat option categories \<Rightarrow> rat categories option" where
  "all_defined cr =
     (case (taste cr, quantity cr, freshness cr, value' cr) of
        (Some t, Some q, Some f, Some v) \<Rightarrow>
          Some \<lparr>taste = t, quantity = q, freshness = f, value' = v\<rparr>
      | _ \<Rightarrow> None)"

text \<open>
  The MenuItem correction of \<open>updateRating\<close>: the old contribution is taken out and the
  new one put in, for the overall average and for each category. A zero divisor makes
  the result NaN or infinite, which \<open>menuItem.save()\<close> refuses.
\<close>

definition replaceCategory :: "rat categories \<Rightarrow> rat categories \<Rightarrow> category \<Rightarrow> menu_item option \<Rightarrow> menu_item option" where
  "replaceCategory oldCategoryRatings newCategoryRatings category acc =
     (case acc of
        None \<Rightarrow> None
      | Some this \<Rightarrow>
          (let categoryData = cat_get category (categoryRatings this);
               oldValue = cat_get category oldCategoryRatings;
               newValue = cat_get category newCategoryRatings;
               totalCategoryScore =
                 average categoryData * of_nat (count categoryData) - oldValue + newValue
           in case js_div totalCategoryScore (of_nat (count categoryData)) of
                None \<Rightarrow> None
              | Some a \<Rightarrow>
                  Some (this\<lparr>categoryRatings :=
                          cat_set category (categoryData\<lparr>average := a\<rparr>)
                            (categoryRatings this)\<rparr>)))"

definition replaceContribution :: "menu_item \<Rightarrow> rat \<Rightarrow> rat \<Rightarrow> rat categories \<Rightarrow> rat categories \<Rightarrow> menu_item option" where
  "replaceContribution menuItem' oldOverallRating newOverallRating oldCategoryRatings
       newCategoryRatings =
     (let totalScore = averageRating menuItem' * of_nat (totalRatings menuItem') -
                       oldOverallRating + newOverallRating
      in case js_div totalScore (of_nat (totalRatings menuItem')) of
           None \<Rightarrow> None
         | Some a \<Rightarrow>
             fold (replaceCategory oldCategoryRatings newCategoryRatings) all_categories
                  (Some (menuItem'\<lparr>averageRating := a\<rparr>)))"

text \<open>
  The handler \<open>updateRating\<close>. The rating is saved first; an exception afterwards is
  answered with status 500 and leaves the saved rating in place.
\<close>

definition updateRating :: "env \<Rightarrow> principal \<Rightarrow> object_id \<Rightarrow> update_body \<Rightarrow> state \<Rightarrow> response \<times> state" where
  "updateRating e u ratingId body s =
     (case Rating_findOwned ratingId (uid u) (Ratings s) of
        None \<Rightarrow> (Failure RatingNotFound, s)
      | Some rating' \<Rightarrow>
          if hoursSince e rating' > 24 then (Failure UpdateWindowExpired, s)
          else
            (let oldOverallRating = overallRating rating';
                 oldCategoryRatings = r_categoryRatings rating'
             in case u_categoryRatings body of
                  None \<Rightarrow> (Success 200, s)
                | Some given \<Rightarrow>
                  (case all_defined given of
                     None \<Rightarrow> (Failure ServerError, s)
                   | Some cr \<Rightarrow>
                       if \<not> categories_in_1_5 cr then (Failure ServerError, s)
                       else
                         (let rating2 = rating'
                                \<lparr>r_categoryRatings := cr,
                                 overallRating :=
                                   Math_round ((taste cr + quantity cr + freshness cr + value' cr) / 4)\<rparr>;
                              s1 = s\<lparr>Ratings := (Ratings s)[ratingId := rating2]\<rparr>
                          in case MenuItems s1 (menuItem rating2) of
                               None \<Rightarrow> (Success 200, s1)
                             | Some menuItem' \<Rightarrow>
                                 (case replaceContribution menuItem' oldOverallRating
                                         (overallRating rating2) oldCategoryRatings
                                         (r_categoryRatings rating2) of
                                    None \<Rightarrow> (Failure ServerError, s1)
                                  | Some menuItem2 \<Rightarrow>
                                      if \<not> menu_item_valid menuItem2
                                      then (Failure ServerError, s1)
                                      else (Success 200,
                                            s1\<lparr>MenuItems := (MenuItems s1)
                                                 (menuItem rating2 \<mapsto> menuItem2)\<rparr>))))))"

definition deleteRating :: "env \<Rightarrow> principal \<Rightarrow> object_id \<Rightarrow> state \<Rightarrow> response \<times> state" where
  "deleteRating e u ratingId s =
     (case Rating_findOwned ratingId (uid u) (Ratings s) of
        None \<Rightarrow> (Failure RatingNotFound, s)
      | Some rating' \<Rightarrow>
          if hoursSince e rating' > 1 then (Failure DeleteWindowExpired, s)
          else (Success 200,
                s\<lparr>Ratings := (Ratings s)[ratingId := rating'\<lparr>isActive := False\<rparr>]\<rparr>))"

text \<open>The active ratings of one menu item, in the order of their creation.\<close>

definition active_ratings :: "object_id \<Rightarrow> state \<Rightarrow> rating list" where
  "active_ratings itemId s = filter (\<lambda>r. menuItem r = itemId \<and> isActive r) (Ratings s)"

section \<open>Publishing a daily menu\<close>

text \<open>
  \<open>authenticate\<close> attaches \<open>facilityId\<close> and \<open>messType\<close> to \<open>req.user\<close>, from the admin
  pointer for a mess admin and from the selected pointer for a student.
\<close>

definition user_facilityId :: "principal \<Rightarrow> string option" where
  "user_facilityId u =
     (case role u of
        Mess_admin \<Rightarrow> ref_facilityId (adminFacility u)
      | Student \<Rightarrow> ref_facilityId (selectedFacility u))"

definition user_messType :: "principal \<Rightarrow> mess_type" where
  "user_messType u =
     (case role u of
        Mess_admin \<Rightarrow>
          if ref_facilityType (adminFacility u) = Some Hostel then Hostel_mess else College_mess
      | Student \<Rightarrow>
          if ref_facilityType (selectedFacility u) = Some Hostel then Hostel_mess else College_mess)"

text \<open>\<open>DailyMenu.findOne({_id: id, facilityId, messType})\<close>.\<close>

definition DailyMenu_findOne :: "object_id \<Rightarrow> string option \<Rightarrow> mess_type \<Rightarrow> (object_id \<rightharpoonup> daily_menu) \<Rightarrow> daily_menu option" where
  "DailyMenu_findOne id' facilityId' messType' coll =
     (case coll id' of
        None \<Rightarrow> None
      | Some d \<Rightarrow>
          if Some (dm_facilityId d) = facilityId' \<and> dm_messType d = messType' then Some d
          else None)"

definition publishDailyMenu :: "principal \<Rightarrow> object_id \<Rightarrow> state \<Rightarrow> response \<times> state" where
  "publishDailyMenu u id' s =
     (case DailyMenu_findOne id' (user_facilityId u) (user_messType u) (DailyMenus s) of
        None \<Rightarrow> (Failure DailyMenuNotFound, s)
      | Some dailyMenu' \<Rightarrow>
          if status dailyMenu' = Published \<or> status dailyMenu' = Active
          then (Failure AlreadyPublished, s)
          else if length (menuItems dailyMenu') = 0 then (Failure NoMenuItems, s)
          else (Success 200,
                s\<lparr>DailyMenus := (DailyMenus s)
                     (id' \<mapsto> dailyMenu'\<lparr>status := Published, lastModifiedBy := Some (uid u)\<rparr>)\<rparr>))"

section \<open>Facilities and messes\<close>

text \<open>
  A Facility document with its embedded messes. \<open>messId\<close> is \<open>required\<close> by the schema
  and is optional here, so that a mess built without one can be written down and
  refused by validation. Operating hours, location and contact data are stored as given.
  Names are bytes: \<open>toLowerCase\<close> maps the ASCII capitals, and white space is one of
  the six ASCII white-space characters.
\<close>

record mess =
  mess_name :: string
  messId :: "string option"
  description :: "string option"
  capacity :: "rat option"
  mess_isActive :: bool
  mess_createdAt :: date

record facility =
  fac_name :: string
  fac_type :: facility_type
  messes :: "mess list"
  fac_isActive :: bool
  createdBy :: "object_id option"


definition is_space :: "char \<Rightarrow> bool" where
  "is_space c \<longleftrightarrow> (of_char c :: nat) \<in> {9, 10, 11, 12, 13, 32}"

text \<open>
  The \<open>replace\<close> call of the mess id template: every maximal run of white space
  becomes one underscore. The flag says that the previous character was white space.
\<close>

fun replace_spaces :: "bool \<Rightarrow> string \<Rightarrow> string" where
  "replace_spaces in_run [] = []"
| "replace_spaces in_run (c # cs) =
     (if is_space c
      then (if in_run then replace_spaces True cs else CHR ''_'' # replace_spaces True cs)
      else c # replace_spaces False cs)"

definition slug :: "string \<Rightarrow> string" where
  "slug s = replace_spaces False (toLowerCase s)"

fun decimal :: "nat \<Rightarrow> string" where
  "decimal n =
     (if n < 10 then [char_of (48 + n)]
      else decimal (n div 10) @ [char_of (48 + n mod 10)])"

declare decimal.simps [simp del]

definition show_number :: "int \<Rightarrow> string" where
  "show_number i = (if i < 0 then CHR ''-'' # decimal (nat (- i)) else decimal (nat i))"

text \<open>The template string of \<open>addMess\<close> and of the registration handler.\<close>

definition make_messId :: "string \<Rightarrow> string \<Rightarrow> date \<Rightarrow> string" where
  "make_messId facilityName messName today =
     slug facilityName @ ''_'' @ slug messName @ ''_'' @ show_number today"


text \<open>
  The validators of the Facility schema that \<open>Facility.create\<close> runs: the facility name
  and every mess name are required and at most 100 characters long, and every mess needs
  a \<open>messId\<close>. The unique indexes refuse a second facility of the same name and a mess
  id that another stored facility uses already.
\<close>

definition mess_schema_ok :: "mess \<Rightarrow> bool" where
  "mess_schema_ok m \<longleftrightarrow>
     mess_name m \<noteq> [] \<and> length (mess_name m) \<le> 100 \<and>
     (case messId m of None \<Rightarrow> False | Some i \<Rightarrow> i \<noteq> [])"

definition facility_schema_ok :: "facility \<Rightarrow> bool" where
  "facility_schema_ok f \<longleftrightarrow>
     fac_name f \<noteq> [] \<and> length (fac_name f) \<le> 100 \<and> list_all mess_schema_ok (messes f)"

definition Facility_create :: "facility \<Rightarrow> facility list \<Rightarrow> error + facility list" where
  "Facility_create f coll =
     (if \<not> facility_schema_ok f then Inl SchemaValidationError
      else if list_ex (\<lambda>g. fac_name g = fac_name f \<or>
                             list_ex (\<lambda>m. messId m \<in> set (map messId (messes f))) (messes g))
                coll
      then Inl DuplicateKey
      else Inr (coll @ [f]))"

text \<open>The body of \<^verbatim>\<open>POST /api/facilities\<close> and the handler \<open>createFacility\<close>.\<close>

record facility_body =
  fb_name :: string
  fb_type :: facility_type
  fb_messName :: string

definition createFacility :: "env \<Rightarrow> principal \<Rightarrow> facility_body \<Rightarrow> facility list \<Rightarrow> response \<times> facility list" where
  "createFacility e u body coll =
     (case find (\<lambda>f. fac_name f = fb_name body) coll of
        Some existingFacility \<Rightarrow> (Failure FacilityExists, coll)
      | None \<Rightarrow>
          (case Facility_create
                  \<lparr>fac_name = fb_name body, fac_type = fb_type body,
                   messes = [\<lparr>mess_name = fb_messName body, messId = None,
                              description = Some (''Main mess for '' @ fb_name body),
                              capacity = Some 200, mess_isActive = True,
                              mess_createdAt = now e\<rparr>],
                   fac_isActive = True, createdBy = Some (uid u)\<rparr> coll of
             Inr coll' \<Rightarrow> (Success 201, coll')
           | Inl DuplicateKey \<Rightarrow> (Failure FacilityExists, coll)
           | Inl err \<Rightarrow> (Failure ServerError, coll)))"

text \<open>
  The body of \<^verbatim>\<open>POST /api/facilities/add-mess\<close> and the handler \<open>addMessToFacility\<close>,
  which does not call \<open>addMess\<close>: it compares the names as they are, whatever the
  \<open>isActive\<close> flag, and pushes the new mess itself, without a \<open>messId\<close>.
  \<open>facility.save()\<close> validates the new entry.
\<close>

record add_mess_body =
  ab_facilityName :: string
  ab_messName :: string
  ab_description :: "string option"
  ab_capacity :: "rat option"

definition addMessToFacility :: "env \<Rightarrow> add_mess_body \<Rightarrow> facility list \<Rightarrow> response \<times> facility list" where
  "addMessToFacility e body coll =
     (case find (\<lambda>f. fac_name f = ab_facilityName body) coll of
        None \<Rightarrow> (Failure FacilityNotFound, coll)
      | Some facility' \<Rightarrow>
          (case find (\<lambda>m. mess_name m = ab_messName body) (messes facility') of
             Some existingMess \<Rightarrow> (Failure MessExists, coll)
           | None \<Rightarrow>
               (let newMess =
                      \<lparr>mess_name = ab_messName body, messId = None,
                       description =
                         or_else (ab_description body)
                           (Some (ab_messName body @ '' at '' @ ab_facilityName body)),
                       capacity =
                         Some (case ab_capacity body of
                                 None \<Rightarrow> 150
                               | Some c \<Rightarrow> if c = 0 then 150 else c),
                       mess_isActive = True, mess_createdAt = now e\<rparr>
                in if \<not> mess_schema_ok newMess then (Failure ServerError, coll)
                   else (Success 201,
                         map (\<lambda>f. if fac_name f = ab_facilityName body
                                   then f\<lparr>messes := messes f @ [newMess]\<rparr> else f) coll))))"

text \<open>
  The facility branch of the registration handler, taken when no facility of that name
  exists: it builds the mess id before \<open>Facility.create\<close>.
\<close>

definition register_newFacility :: "env \<Rightarrow> string \<Rightarrow> facility_body \<Rightarrow> facility list \<Rightarrow> error + facility list" where
  "register_newFacility e adminName body coll =
     Facility_create
       \<lparr>fac_name = fb_name body, fac_type = fb_type body,
        messes = [\<lparr>mess_name = fb_messName body,
                   messId = Some (make_messId (fb_name body) (fb_messName body) (now e)),
                   description = Some (fb_messName body @ '' - Managed by '' @ adminName),
                   capacity = None, mess_isActive = True, mess_createdAt = now e\<rparr>],
        fac_isActive = True, createdBy = None\<rparr> coll"

section \<open>The submission protocol in the words of the specification\<close>

text \<open>
  The submission windows as the specification gives them, in minutes since midnight:
  breakfast 08:00 to 11:00, lunch 12:00 to 16:00, dinner 19:00 to 23:00.
\<close>

definition window :: "string \<Rightarrow> (nat \<times> nat) option" where
  "window m =
     (if m = ''breakfast'' then Some (8 * 60, 11 * 60)
      else if m = ''lunch'' then Some (12 * 60, 16 * 60)
      else if m = ''dinner'' then Some (19 * 60, 23 * 60)
      else None)"

definition minute_of_day :: "env \<Rightarrow> nat" where
  "minute_of_day e = 60 * hour e + minute e"

text \<open>A rating with the compound key of the request exists already.\<close>

definition already_rated :: "principal \<Rightarrow> rating_body \<Rightarrow> state \<Rightarrow> bool" where
  "already_rated u b s \<longleftrightarrow>
     (\<exists>r \<in> set (Ratings s). student r = uid u \<and> menuItem r = menuItemId b \<and>
                             mealDate r = b_mealDate b \<and> mealType r = b_mealType b)"

text \<open>Some facility id is at hand, on the principal or in the body.\<close>

definition truthy :: "string option \<Rightarrow> bool" where
  "truthy a = (case a of None \<Rightarrow> False | Some x \<Rightarrow> x \<noteq> [])"

definition facility_known :: "principal \<Rightarrow> rating_body \<Rightarrow> bool" where
  "facility_known u b \<longleftrightarrow>
     truthy (ref_facilityId (adminFacility u)) \<or>
     truthy (ref_facilityId (selectedFacility u)) \<or> truthy (b_facilityId b)"

section \<open>Sample data\<close>

text \<open>
  A small campus used to run the handlers on concrete requests: one menu item without
  ratings, one daily menu that lists it, students of facility \<open>f1\<close>, and requests sent at
  one o'clock in the afternoon.
\<close>

definition unrated_item :: menu_item where
  "unrated_item =
     \<lparr>totalRatings = 0, averageRating = 0,
      categoryRatings =
        \<lparr>taste = \<lparr>average = 0, count = 0\<rparr>, quantity = \<lparr>average = 0, count = 0\<rparr>,
         freshness = \<lparr>average = 0, count = 0\<rparr>, value' = \<lparr>average = 0, count = 0\<rparr>\<rparr>,
      lastUpdated = 0\<rparr>"

definition menu_with :: "menu_status \<Rightarrow> object_id list \<Rightarrow> daily_menu" where
  "menu_with st items =
     \<lparr>dm_facilityId = ''f1'', dm_messType = College_mess, status = st,
      menuItems = items, expectedStudents = Some 50,
      ratingStats =
        \<lparr>rs_totalRatings = 0, rs_averageRating = 0,
         categoryAverages = \<lparr>taste = 0, quantity = 0, freshness = 0, value' = 0\<rparr>,
         participationRate = 0, rs_lastUpdated = None\<rparr>,
      lastModifiedBy = None\<rparr>"

definition campus_with :: "daily_menu \<Rightarrow> state" where
  "campus_with d = \<lparr>Ratings = [], MenuItems = [7 \<mapsto> unrated_item], DailyMenus = [3 \<mapsto> d]\<rparr>"

definition campus :: state where
  "campus = campus_with (menu_with Draft [7])"

definition student_of :: "object_id \<Rightarrow> principal" where
  "student_of i =
     \<lparr>uid = i, role = Student,
      adminFacility = \<lparr>ref_facilityId = None, ref_facilityType = None\<rparr>,
      selectedFacility = \<lparr>ref_facilityId = Some ''f1'', ref_facilityType = Some College\<rparr>\<rparr>"

definition admin_of :: "object_id \<Rightarrow> principal" where
  "admin_of i =
     \<lparr>uid = i, role = Mess_admin,
      adminFacility = \<lparr>ref_facilityId = Some ''f1'', ref_facilityType = Some College\<rparr>,
      selectedFacility = \<lparr>ref_facilityId = None, ref_facilityType = None\<rparr>\<rparr>"

definition lunch_body :: "rat \<Rightarrow> rat categories \<Rightarrow> rating_body" where
  "lunch_body x cr =
     \<lparr>menuItemId = 7, dailyMenuId = 3, b_overallRating = x, b_categoryRatings = cr,
      b_mealType = ''lunch'', b_mealDate = 1704844800000, b_facilityId = None\<rparr>"

definition clock :: "nat \<Rightarrow> nat \<Rightarrow> date \<Rightarrow> env" where
  "clock h m t = \<lparr>now = t, hour = h, minute = m\<rparr>"

definition two_lunches :: "(env \<times> principal \<times> rating_body) list" where
  "two_lunches =
     [(clock 13 0 1704891600000, student_of 1,
       lunch_body 4 \<lparr>taste = 4, quantity = 5, freshness = 3, value' = 4\<rparr>),
      (clock 13 1 1704891660000, student_of 2,
       lunch_body 2 \<lparr>taste = 2, quantity = 1, freshness = 3, value' = 2\<rparr>)]"

text \<open>The campus after the two lunch ratings.\<close>

definition lunch_rating :: "object_id \<Rightarrow> rat \<Rightarrow> rat categories \<Rightarrow> date \<Rightarrow> rating" where
  "lunch_rating i x cr t =
     \<lparr>student = i, menuItem = 7, dailyMenu = 3, overallRating = x, r_categoryRatings = cr,
      mealType = ''lunch'', mealDate = 1704844800000, facilityId = ''f1'',
      messType = Hostel_mess,
      helpfulVotes = \<lparr>upvotes = 0, downvotes = 0, voters = []\<rparr>,
      isActive = True, createdAt = t\<rparr>"

definition rated_campus :: state where
  "rated_campus =
     \<lparr>Ratings =
        [lunch_rating 1 4 \<lparr>taste = 4, quantity = 5, freshness = 3, value' = 4\<rparr> 1704891600000,
         lunch_rating 2 2 \<lparr>taste = 2, quantity = 1, freshness = 3, value' = 2\<rparr> 1704891660000],
      MenuItems =
        [7 \<mapsto> \<lparr>totalRatings = 2, averageRating = 3,
                 categoryRatings =
                   \<lparr>taste = \<lparr>average = 3, count = 2\<rparr>, quantity = \<lparr>average = 3, count = 2\<rparr>,
                    freshness = \<lparr>average = 3, count = 2\<rparr>, value' = \<lparr>average = 3, count = 2\<rparr>\<rparr>,
                 lastUpdated = 1704891660000\<rparr>],
      DailyMenus =
        [3 \<mapsto> (menu_with Draft [7])
                \<lparr>ratingStats :=
                   \<lparr>rs_totalRatings = 2, rs_averageRating = 3,
                    categoryAverages = \<lparr>taste = 3, quantity = 3, freshness = 3, value' = 3\<rparr>,
                    participationRate = 4, rs_lastUpdated = Some 1704891660000\<rparr>\<rparr>]\<rparr>"

text \<open>
  An edit of the first rating, sent an hour after it was created. The mean of the new
  category scores is 2.5.
\<close>

definition edit_body :: update_body where
  "edit_body =
     \<lparr>u_categoryRatings = Some \<lparr>taste = Some 2, quantity = Some 3, freshness = Some 3,
                                 value' = Some 2\<rparr>\<rparr>"

text \<open>Further sample requests: a body of all fives, aimed at the sample item or elsewhere.\<close>

definition fives :: "rat categories" where
  "fives = \<lparr>taste = 5, quantity = 5, freshness = 5, value' = 5\<rparr>"

text \<open>A user who votes up and changes the vote a minute later.\<close>

definition two_votes :: "(env \<times> string) list" where
  "two_votes = [(clock 13 40 1704894000000, ''up''), (clock 13 41 1704894060000, ''down'')]"




definition sj_request :: facility_body where
  "sj_request = \<lparr>fb_name = ''SJ Hall'', fb_type = College, fb_messName = ''SJ Mess''\<rparr>"

section \<open>Evaluation of the sample data\<close>

lemmas sample_defs = unrated_item_def menu_with_def campus_with_def campus_def student_of_def
  admin_of_def lunch_body_def clock_def two_lunches_def lunch_rating_def rated_campus_def

lemmas submit_defs = post_rating_def validateMealTime_def mealTimes_def toLowerCase_def
  toLowerCase_char_def validateRating_def isInt_1_5_def mealType_enum_def all_categories_def
  submitRating_def Rating_findOne_def or_else_def Rating_create_def in_1_5_def
  categories_in_1_5_def submitted_def updateRatings_def updateCategory_def menu_item_valid_def
  updateDailyMenuStats_def updateCategoryAverage_def updateParticipationRate_def
  daily_menu_valid_def Math_round_def Let_def

lemma floor_half: "\<lfloor>1 / 2 :: rat\<rfloor> = 0"
  by (simp add: floor_eq_iff)

lemma two_lunches_run: "submit_all two_lunches campus = Some rated_campus"
  by (simp add: sample_defs submit_defs floor_half numeral_2_eq_2)


section \<open>The running mean of a menu item\<close>












section \<open>The checks of a submission\<close>

lemma clock_less: "(of_nat h + of_nat m / 60 < (of_nat k :: rat)) \<longleftrightarrow> 60 * h + m < 60 * k"
proof -
  have "(of_nat h + of_nat m / 60 < (of_nat k :: rat)) \<longleftrightarrow>
        (of_nat (60 * h + m) :: rat) < of_nat (60 * k)"
    by (simp add: field_simps)
  then show ?thesis by (simp only: of_nat_less_iff)
qed

lemma clock_greater: "((of_nat k :: rat) < of_nat h + of_nat m / 60) \<longleftrightarrow> 60 * k < 60 * h + m"
proof -
  have "((of_nat k :: rat) < of_nat h + of_nat m / 60) \<longleftrightarrow>
        (of_nat (60 * k) :: rat) < of_nat (60 * h + m)"
    by (simp add: field_simps)
  then show ?thesis by (simp only: of_nat_less_iff)
qed

lemma validateMealTime_window:
  assumes "window mt = Some (opens, closes)"
  shows "validateMealTime e mt =
           (if minute_of_day e < opens \<or> closes < minute_of_day e
            then Some OutsideMealWindow else None)"
proof -
  from assms consider
      "mt = ''breakfast''" "opens = 8 * 60" "closes = 11 * 60"
    | "mt = ''lunch''" "opens = 12 * 60" "closes = 16 * 60"
    | "mt = ''dinner''" "opens = 19 * 60" "closes = 23 * 60"
    by (auto simp: window_def split: if_splits)
  then show ?thesis
  proof cases
    case 1
    with clock_less [of "hour e" "minute e" 8] clock_greater [of 11 "hour e" "minute e"]
    show ?thesis
      by (simp add: validateMealTime_def mealTimes_def toLowerCase_def toLowerCase_char_def
          minute_of_day_def Let_def)
  next
    case 2
    with clock_less [of "hour e" "minute e" 12] clock_greater [of 16 "hour e" "minute e"]
    show ?thesis
      by (simp add: validateMealTime_def mealTimes_def toLowerCase_def toLowerCase_char_def
          minute_of_day_def Let_def)
  next
    case 3
    with clock_less [of "hour e" "minute e" 19] clock_greater [of 23 "hour e" "minute e"]
    show ?thesis
      by (simp add: validateMealTime_def mealTimes_def toLowerCase_def toLowerCase_char_def
          minute_of_day_def Let_def)
  qed
qed

lemma Rating_findOne_None:
  "Rating_findOne (uid u) (menuItemId b) (b_mealDate b) (b_mealType b) (Ratings s) = None
     \<longleftrightarrow> \<not> already_rated u b s"
  by (auto simp: Rating_findOne_def already_rated_def find_None_iff)

lemma facility_known_or_else:
  assumes "facility_known u b" and "validateRating b"
  shows "\<exists>f. f \<noteq> [] \<and>
           or_else (ref_facilityId (adminFacility u))
             (or_else (ref_facilityId (selectedFacility u)) (b_facilityId b)) = Some f"
  using assms
  by (auto simp: facility_known_def truthy_def validateRating_def or_else_def
      split: option.splits)

lemma validateRating_create:
  assumes "validateRating b" and "f \<noteq> []"
  shows "Rating_create e i b (Some f) mt =
     Some \<lparr>student = i, menuItem = menuItemId b, dailyMenu = dailyMenuId b,
           overallRating = b_overallRating b, r_categoryRatings = b_categoryRatings b,
           mealType = b_mealType b, mealDate = b_mealDate b, facilityId = f, messType = mt,
           helpfulVotes = \<lparr>upvotes = 0, downvotes = 0, voters = []\<rparr>,
           isActive = True, createdAt = now e\<rparr>"
  using assms
  by (simp add: validateRating_def Rating_create_def isInt_1_5_def in_1_5_def
      categories_in_1_5_def all_categories_def)

lemma submitRating_persists:
  assumes "\<not> already_rated u b s"
    and "MenuItems s (menuItemId b) = Some mi" and "DailyMenus s (dailyMenuId b) = Some dm"
    and "Rating_create e (uid u) b
           (or_else (ref_facilityId (adminFacility u))
              (or_else (ref_facilityId (selectedFacility u)) (b_facilityId b)))
           (if ref_facilityType (adminFacility u) = Some College
            then College_mess else Hostel_mess) = Some rt"
  shows "Ratings (snd (submitRating e u b s)) = Ratings s @ [rt]"
  using assms Rating_findOne_None [of u b s]
  by (simp add: submitRating_def Let_def)

text \<open>
  Claim C4, amended. For a student's \<^verbatim>\<open>POST /api/ratings\<close> whose meal type has a window
  (breakfast 08:00 to 11:00, lunch 12:00 to 16:00, dinner 19:00 to 23:00), the window is
  checked first: when the current time lies outside it the request is rejected as
  \<open>OutsideMealWindow\<close> and nothing is read or written, so no aggregation runs. Inside the
  window, and with a body that passes \<open>validateRating\<close>: the request fails with
  \<open>AlreadyRated\<close> when a rating with the same (student, menuItem, mealDate, mealType)
  exists; otherwise with \<open>MenuItemNotFound\<close> when the menu item is missing; otherwise with
  \<open>DailyMenuNotFound\<close> when the daily menu is missing, the store unchanged in all three
  cases; otherwise, a facility id being at hand, the new rating is persisted with the
  submitted values.
\<close>

theorem C4_submission_checks:
  assumes "role u = Student" and "window (b_mealType b) = Some (opens, closes)"
  shows "(minute_of_day e < opens \<or> closes < minute_of_day e \<longrightarrow>
            post_rating e u b s = (Failure OutsideMealWindow, s)) \<and>
         (opens \<le> minute_of_day e \<and> minute_of_day e \<le> closes \<and> validateRating b \<longrightarrow>
            (already_rated u b s \<longrightarrow> post_rating e u b s = (Failure AlreadyRated, s)) \<and>
            (\<not> already_rated u b s \<and> MenuItems s (menuItemId b) = None \<longrightarrow>
               post_rating e u b s = (Failure MenuItemNotFound, s)) \<and>
            (\<not> already_rated u b s \<and> MenuItems s (menuItemId b) \<noteq> None \<and>
             DailyMenus s (dailyMenuId b) = None \<longrightarrow>
               post_rating e u b s = (Failure DailyMenuNotFound, s)) \<and>
            (\<not> already_rated u b s \<and> MenuItems s (menuItemId b) \<noteq> None \<and>
             DailyMenus s (dailyMenuId b) \<noteq> None \<and> facility_known u b \<longrightarrow>
               (\<exists>rt. Ratings (snd (post_rating e u b s)) = Ratings s @ [rt] \<and>
                     student rt = uid u \<and> menuItem rt = menuItemId b \<and>
                     dailyMenu rt = dailyMenuId b \<and> mealDate rt = b_mealDate b \<and>
                     mealType rt = b_mealType b \<and> overallRating rt = b_overallRating b \<and>
                     r_categoryRatings rt = b_categoryRatings b \<and> isActive rt)))"
proof (intro conjI impI)
  assume "minute_of_day e < opens \<or> closes < minute_of_day e"
  with assms show "post_rating e u b s = (Failure OutsideMealWindow, s)"
    by (simp add: post_rating_def validateMealTime_window [OF assms(2)])
next
  assume inside: "opens \<le> minute_of_day e \<and> minute_of_day e \<le> closes \<and> validateRating b"
  then have route: "post_rating e u b s = submitRating e u b s"
    using assms by (simp add: post_rating_def validateMealTime_window [OF assms(2)])
  {
    assume "already_rated u b s"
    then show "post_rating e u b s = (Failure AlreadyRated, s)"
      using Rating_findOne_None [of u b s]
      by (auto simp: route submitRating_def Let_def split: option.splits)
  next
    assume "\<not> already_rated u b s \<and> MenuItems s (menuItemId b) = None"
    then show "post_rating e u b s = (Failure MenuItemNotFound, s)"
      using Rating_findOne_None [of u b s]
      by (simp add: route submitRating_def Let_def)
  next
    assume "\<not> already_rated u b s \<and> MenuItems s (menuItemId b) \<noteq> None \<and>
            DailyMenus s (dailyMenuId b) = None"
    then show "post_rating e u b s = (Failure DailyMenuNotFound, s)"
      using Rating_findOne_None [of u b s]
      by (auto simp: route submitRating_def Let_def)
  next
    assume a: "\<not> already_rated u b s \<and> MenuItems s (menuItemId b) \<noteq> None \<and>
               DailyMenus s (dailyMenuId b) \<noteq> None \<and> facility_known u b"
    then obtain mi dm where mi: "MenuItems s (menuItemId b) = Some mi"
      and dm: "DailyMenus s (dailyMenuId b) = Some dm" by auto
    from a inside facility_known_or_else [of u b] obtain f where f: "f \<noteq> []"
      and fo: "or_else (ref_facilityId (adminFacility u))
                 (or_else (ref_facilityId (selectedFacility u)) (b_facilityId b)) = Some f"
      by blast
    let ?mt = "if ref_facilityType (adminFacility u) = Some College
               then College_mess else Hostel_mess"
    from inside f have cr: "Rating_create e (uid u) b (Some f) ?mt =
       Some \<lparr>student = uid u, menuItem = menuItemId b, dailyMenu = dailyMenuId b,
           overallRating = b_overallRating b, r_categoryRatings = b_categoryRatings b,
           mealType = b_mealType b, mealDate = b_mealDate b, facilityId = f, messType = ?mt,
           helpfulVotes = \<lparr>upvotes = 0, downvotes = 0, voters = []\<rparr>,
           isActive = True, createdAt = now e\<rparr>"
      by (intro validateRating_create) simp_all
    from submitRating_persists [OF _ mi dm, of u e, unfolded fo, OF _ cr] a
    show "\<exists>rt. Ratings (snd (post_rating e u b s)) = Ratings s @ [rt] \<and>
                     student rt = uid u \<and> menuItem rt = menuItemId b \<and>
                     dailyMenu rt = dailyMenuId b \<and> mealDate rt = b_mealDate b \<and>
                     mealType rt = b_mealType b \<and> overallRating rt = b_overallRating b \<and>
                     r_categoryRatings rt = b_categoryRatings b \<and> isActive rt"
      by (simp add: route)
  }
qed

theorem C4_submission_checks_witness:
  "post_rating (clock 17 0 1704906000000) (student_of 3) (lunch_body 5 fives) campus =
     (Failure OutsideMealWindow, campus) \<and>
   post_rating (clock 13 30 1704893400000) (student_of 1) (lunch_body 5 fives) rated_campus =
     (Failure AlreadyRated, rated_campus) \<and>
   post_rating (clock 13 30 1704893400000) (student_of 3)
     ((lunch_body 5 fives)\<lparr>menuItemId := 99\<rparr>) rated_campus =
     (Failure MenuItemNotFound, rated_campus) \<and>
   post_rating (clock 13 30 1704893400000) (student_of 3)
     ((lunch_body 5 fives)\<lparr>dailyMenuId := 99\<rparr>) rated_campus =
     (Failure DailyMenuNotFound, rated_campus) \<and>
   (\<exists>rt. Ratings (snd (post_rating (clock 13 30 1704893400000) (student_of 3)
                          (lunch_body 5 fives) rated_campus)) = Ratings rated_campus @ [rt] \<and>
         student rt = 3 \<and> menuItem rt = 7 \<and> overallRating rt = 5)"
proof -
  have w: "window (b_mealType (lunch_body 5 fives)) = Some (720, 960)"
       "window (b_mealType ((lunch_body 5 fives)\<lparr>menuItemId := 99\<rparr>)) = Some (720, 960)"
       "window (b_mealType ((lunch_body 5 fives)\<lparr>dailyMenuId := 99\<rparr>)) = Some (720, 960)"
    by (simp_all add: lunch_body_def window_def)
  have r: "role (student_of 1) = Student" "role (student_of 3) = Student"
    by (simp_all add: student_of_def)
  have v: "validateRating (lunch_body 5 fives)"
       "validateRating ((lunch_body 5 fives)\<lparr>menuItemId := 99\<rparr>)"
       "validateRating ((lunch_body 5 fives)\<lparr>dailyMenuId := 99\<rparr>)"
    by (simp_all add: lunch_body_def fives_def validateRating_def isInt_1_5_def
        mealType_enum_def all_categories_def)
  have late: "minute_of_day (clock 17 0 1704906000000) = 1020"
    and noon: "minute_of_day (clock 13 30 1704893400000) = 810"
    by (simp_all add: minute_of_day_def clock_def)
  have 1: "post_rating (clock 17 0 1704906000000) (student_of 3) (lunch_body 5 fives) campus =
             (Failure OutsideMealWindow, campus)"
    using C4_submission_checks [OF r(2) w(1), of "clock 17 0 1704906000000" campus] late
    by simp
  have 2: "post_rating (clock 13 30 1704893400000) (student_of 1) (lunch_body 5 fives)
             rated_campus = (Failure AlreadyRated, rated_campus)"
    using C4_submission_checks [OF r(1) w(1), of "clock 13 30 1704893400000" rated_campus]
      noon v(1)
    by (simp add: already_rated_def sample_defs)
  have 3: "post_rating (clock 13 30 1704893400000) (student_of 3)
             ((lunch_body 5 fives)\<lparr>menuItemId := 99\<rparr>) rated_campus =
             (Failure MenuItemNotFound, rated_campus)"
    using C4_submission_checks [OF r(2) w(2), of "clock 13 30 1704893400000" rated_campus]
      noon v(2)
    by (simp add: already_rated_def sample_defs)
  have 4: "post_rating (clock 13 30 1704893400000) (student_of 3)
             ((lunch_body 5 fives)\<lparr>dailyMenuId := 99\<rparr>) rated_campus =
             (Failure DailyMenuNotFound, rated_campus)"
    using C4_submission_checks [OF r(2) w(3), of "clock 13 30 1704893400000" rated_campus]
      noon v(3)
    by (simp add: already_rated_def sample_defs)
  let ?E = "clock 13 30 1704893400000" and ?U = "student_of 3" and ?B = "lunch_body 5 fives"
  have k: "facility_known ?U ?B"
    by (simp add: facility_known_def truthy_def student_of_def)
  have inside: "720 \<le> minute_of_day ?E \<and> minute_of_day ?E \<le> 960 \<and> validateRating ?B"
    using noon v(1) by simp
  have fresh: "\<not> already_rated ?U ?B rated_campus"
    by (simp add: already_rated_def sample_defs)
  have there: "MenuItems rated_campus (menuItemId ?B) \<noteq> None"
              "DailyMenus rated_campus (dailyMenuId ?B) \<noteq> None"
    by (simp_all add: sample_defs)
  from C4_submission_checks [OF r(2) w(1), of ?E rated_campus] inside fresh there k
  obtain rt where "Ratings (snd (post_rating ?E ?U ?B rated_campus)) = Ratings rated_campus @ [rt]"
    and "student rt = uid ?U" and "menuItem rt = menuItemId ?B"
    and "overallRating rt = b_overallRating ?B"
    by blast
  then have 5: "\<exists>rt. Ratings (snd (post_rating ?E ?U ?B rated_campus)) =
                      Ratings rated_campus @ [rt] \<and>
         student rt = 3 \<and> menuItem rt = 7 \<and> overallRating rt = 5"
    by (simp add: student_of_def lunch_body_def)
  from 1 2 3 4 5 show ?thesis by blast
qed

text \<open>
  Claim C4 as stated, refuted. On the campus with the two lunch ratings the first student
  sends a second rating for the same item, date and meal at 17:00. A rating with that key
  exists, and the answer is \<open>OutsideMealWindow\<close>, not \<open>AlreadyRated\<close>: the window check
  precedes the duplicate check.
\<close>

theorem C4_window_checked_first_counterexample:
  "Rating_findOne 1 7 1704844800000 ''lunch'' (Ratings rated_campus) =
     Some (lunch_rating 1 4 \<lparr>taste = 4, quantity = 5, freshness = 3, value' = 4\<rparr>
             1704891600000) \<and>
   post_rating (clock 17 0 1704906000000) (student_of 1) (lunch_body 5 fives) rated_campus =
     (Failure OutsideMealWindow, rated_campus) \<and>
   fst (post_rating (clock 17 0 1704906000000) (student_of 1) (lunch_body 5 fives)
          rated_campus) \<noteq> Failure AlreadyRated"
  by (simp add: sample_defs Rating_findOne_def post_rating_def validateMealTime_def
      mealTimes_def toLowerCase_def toLowerCase_char_def Let_def)

section \<open>Editing a rating\<close>




lemmas update_defs = updateRating_def Rating_findOwned_def Rating_findById_def hoursSince_def
  all_defined_def categories_in_1_5_def in_1_5_def all_categories_def Math_round_def
  replaceContribution_def replaceCategory_def js_div_def menu_item_valid_def Let_def



section \<open>What an edit and a deletion leave untouched\<close>

text \<open>
  Claim C9. \<open>updateRating\<close> never writes a DailyMenu: whatever the request and whatever
  its outcome, the collection of daily menus, and with it every \<open>ratingStats\<close>
  (\<open>totalRatings\<close>, \<open>averageRating\<close>, the category averages, \<open>participationRate\<close>), is the
  same before and after.
\<close>

theorem C9_edit_leaves_daily_menus:
  "DailyMenus (snd (updateRating e u ratingId body s)) = DailyMenus s"
  by (simp add: updateRating_def Let_def split: option.splits)

text \<open>
  On the sample data the edit of claim C3 moves the menu item's average from 3 to 2.5,
  while the daily menu still reports 3.
\<close>

lemma edit_corrects_item_only:
  "map_option averageRating
     (MenuItems (snd (updateRating (clock 14 0 1704895200000) (student_of 1) 0 edit_body
                        rated_campus)) 7) = Some (5 / 2) \<and>
   map_option (\<lambda>d. rs_averageRating (ratingStats d))
     (DailyMenus (snd (updateRating (clock 14 0 1704895200000) (student_of 1) 0 edit_body
                         rated_campus)) 3) = Some 3"
  by (simp add: sample_defs edit_body_def update_defs)

lemma deleteRating_leaves_aggregates:
  "MenuItems (snd (deleteRating e u ratingId s)) = MenuItems s \<and>
   DailyMenus (snd (deleteRating e u ratingId s)) = DailyMenus s"
  by (simp add: deleteRating_def split: option.splits)

text \<open>
  Claim C2 on the code. The two sample lunches give the item the ratings 4 and 2 and the
  average 3. The first student then deletes the rating of 4 half an hour after creating
  it. The deletion is accepted; the only active rating of the item is now the 2, whose
  mean is 2, and the item still stores \<open>averageRating = 3\<close> and \<open>totalRatings = 2\<close>.
\<close>

theorem C2_deleted_rating_still_counted:
  "submit_all two_lunches campus = Some rated_campus \<and>
   fst (deleteRating (clock 13 30 1704893400000) (student_of 1) 0 rated_campus) = Success 200 \<and>
   map overallRating
     (active_ratings 7
        (snd (deleteRating (clock 13 30 1704893400000) (student_of 1) 0 rated_campus))) = [2] \<and>
   mean [2] = Some 2 \<and>
   map_option averageRating
     (MenuItems (snd (deleteRating (clock 13 30 1704893400000) (student_of 1) 0 rated_campus)) 7)
     = Some 3 \<and>
   map_option totalRatings
     (MenuItems (snd (deleteRating (clock 13 30 1704893400000) (student_of 1) 0 rated_campus)) 7)
     = Some 2"
  by (simp add: two_lunches_run)
     (simp add: sample_defs deleteRating_def Rating_findOwned_def hoursSince_def
        active_ratings_def mean_def)

section \<open>Helpfulness votes: one entry per voter\<close>

lemma addHelpfulVote_own:
  "filter (\<lambda>v. user v = i) (voters (helpfulVotes (addHelpfulVote r i vt t))) =
     [\<lparr>user = i, vote = vt, votedAt = t\<rparr>]"
  by (simp add: addHelpfulVote_def Let_def filter_empty_conv)

lemma addHelpfulVote_others:
  "filter (\<lambda>v. user v \<noteq> i) (voters (helpfulVotes (addHelpfulVote r i vt t))) =
     filter (\<lambda>v. user v \<noteq> i) (voters (helpfulVotes r))"
  by (simp add: addHelpfulVote_def Let_def)

lemma addHelpfulVote_counted: "ledger_counted (addHelpfulVote r i vt t)"
  by (simp add: addHelpfulVote_def ledger_counted_def Let_def)

lemma addHelpfulVote_student: "student (addHelpfulVote r i vt t) = student r"
  by (simp add: addHelpfulVote_def Let_def)

lemma voteOnRating_author:
  assumes "Rating_findById ratingId (Ratings s) = Some r" and "student r = uid u"
  shows "\<exists>err. voteOnRating e u ratingId voteType s = (Failure err, s)"
  using assms by (simp add: voteOnRating_def Let_def)

lemma voteOnRating_other:
  assumes "Rating_findById ratingId (Ratings s) = Some r" and "student r \<noteq> uid u"
    and "voteType = ''up'' \<or> voteType = ''down''"
  shows "voteOnRating e u ratingId voteType s =
           (Success 200,
            s\<lparr>Ratings := (Ratings s)[ratingId := addHelpfulVote r (uid u) voteType (now e)]\<rparr>)"
  using assms by (auto simp: voteOnRating_def Let_def)

lemma vote_all_latest:
  assumes "Rating_findById ratingId (Ratings s) = Some r" and "student r \<noteq> uid u"
    and "calls \<noteq> []" and "\<forall>c \<in> set calls. snd c = ''up'' \<or> snd c = ''down''"
  shows "\<exists>r'. Rating_findById ratingId (Ratings (vote_all u ratingId calls s)) = Some r' \<and>
              filter (\<lambda>v. user v = uid u) (voters (helpfulVotes r')) =
                [\<lparr>user = uid u, vote = snd (last calls), votedAt = now (fst (last calls))\<rparr>] \<and>
              ledger_counted r'"
  using assms
proof (induction calls arbitrary: s r)
  case Nil
  then show ?case by simp
next
  case (Cons c calls)
  obtain e vt where c: "c = (e, vt)" by (cases c) auto
  let ?r1 = "addHelpfulVote r (uid u) vt (now e)"
  let ?s1 = "s\<lparr>Ratings := (Ratings s)[ratingId := ?r1]\<rparr>"
  from Cons.prems c have vt: "vt = ''up'' \<or> vt = ''down''" by simp
  from voteOnRating_other [OF Cons.prems(1,2) vt]
  have step: "snd (voteOnRating e u ratingId vt s) = ?s1" by simp
  from Cons.prems(1) have found: "Rating_findById ratingId (Ratings ?s1) = Some ?r1"
    by (auto simp: Rating_findById_def split: if_splits)
  show ?case
  proof (cases "calls = []")
    case True
    with c step found show ?thesis
      by (simp add: addHelpfulVote_own addHelpfulVote_counted)
  next
    case False
    from Cons.prems(2) have other: "student ?r1 \<noteq> uid u"
      by (simp add: addHelpfulVote_student)
    from Cons.prems(4) have rest: "\<forall>c \<in> set calls. snd c = ''up'' \<or> snd c = ''down''"
      by simp
    from Cons.IH [OF found other False rest] c step False show ?thesis by simp
  qed
qed

text \<open>
  Claim C5. Let a rating be stored under \<open>ratingId\<close>. A \<open>voteOnRating\<close> call by the
  rating's author is rejected and changes nothing. A call by any other user with vote
  type up or down is accepted: it replaces the rating by one in whose voter ledger that
  user has exactly one entry, the vote just cast, while the entries of all other users
  are kept; and \<open>upvotes\<close> and \<open>downvotes\<close> of the new rating are the numbers of up and
  down entries of the new ledger, whatever the counters were before. After any non-empty
  sequence of such calls by one user on one rating the user's only entry is the vote of
  the last call, and the counters again count the ledger.
\<close>

theorem C5_vote_ledger:
  assumes "Rating_findById ratingId (Ratings s) = Some r"
  shows "(student r = uid u \<longrightarrow>
            (\<exists>err. voteOnRating e u ratingId voteType s = (Failure err, s))) \<and>
         (student r \<noteq> uid u \<and> (voteType = ''up'' \<or> voteType = ''down'') \<longrightarrow>
            (\<exists>r'. voteOnRating e u ratingId voteType s =
                     (Success 200, s\<lparr>Ratings := (Ratings s)[ratingId := r']\<rparr>) \<and>
                  filter (\<lambda>v. user v = uid u) (voters (helpfulVotes r')) =
                    [\<lparr>user = uid u, vote = voteType, votedAt = now e\<rparr>] \<and>
                  filter (\<lambda>v. user v \<noteq> uid u) (voters (helpfulVotes r')) =
                    filter (\<lambda>v. user v \<noteq> uid u) (voters (helpfulVotes r)) \<and>
                  upvotes (helpfulVotes r') =
                    length (filter (\<lambda>v. vote v = ''up'') (voters (helpfulVotes r'))) \<and>
                  downvotes (helpfulVotes r') =
                    length (filter (\<lambda>v. vote v = ''down'') (voters (helpfulVotes r'))))) \<and>
         (student r \<noteq> uid u \<and> calls \<noteq> [] \<and>
          (\<forall>c \<in> set calls. snd c = ''up'' \<or> snd c = ''down'') \<longrightarrow>
            (\<exists>r'. Rating_findById ratingId (Ratings (vote_all u ratingId calls s)) = Some r' \<and>
                  filter (\<lambda>v. user v = uid u) (voters (helpfulVotes r')) =
                    [\<lparr>user = uid u, vote = snd (last calls),
                      votedAt = now (fst (last calls))\<rparr>] \<and>
                  upvotes (helpfulVotes r') =
                    length (filter (\<lambda>v. vote v = ''up'') (voters (helpfulVotes r'))) \<and>
                  downvotes (helpfulVotes r') =
                    length (filter (\<lambda>v. vote v = ''down'') (voters (helpfulVotes r')))))"
proof (intro conjI impI)
  assume "student r = uid u"
  then show "\<exists>err. voteOnRating e u ratingId voteType s = (Failure err, s)"
    by (rule voteOnRating_author [OF assms])
next
  assume a: "student r \<noteq> uid u \<and> (voteType = ''up'' \<or> voteType = ''down'')"
  let ?r' = "addHelpfulVote r (uid u) voteType (now e)"
  from a voteOnRating_other [OF assms, of u voteType e]
    addHelpfulVote_counted [of r "uid u" voteType "now e"]
  show "\<exists>r'. voteOnRating e u ratingId voteType s =
                     (Success 200, s\<lparr>Ratings := (Ratings s)[ratingId := r']\<rparr>) \<and>
                  filter (\<lambda>v. user v = uid u) (voters (helpfulVotes r')) =
                    [\<lparr>user = uid u, vote = voteType, votedAt = now e\<rparr>] \<and>
                  filter (\<lambda>v. user v \<noteq> uid u) (voters (helpfulVotes r')) =
                    filter (\<lambda>v. user v \<noteq> uid u) (voters (helpfulVotes r)) \<and>
                  upvotes (helpfulVotes r') =
                    length (filter (\<lambda>v. vote v = ''up'') (voters (helpfulVotes r'))) \<and>
                  downvotes (helpfulVotes r') =
                    length (filter (\<lambda>v. vote v = ''down'') (voters (helpfulVotes r')))"
    by (intro exI [of _ ?r'])
       (simp add: addHelpfulVote_own addHelpfulVote_others ledger_counted_def)
next
  assume a: "student r \<noteq> uid u \<and> calls \<noteq> [] \<and>
          (\<forall>c \<in> set calls. snd c = ''up'' \<or> snd c = ''down'')"
  with vote_all_latest [OF assms, of u calls]
  show "\<exists>r'. Rating_findById ratingId (Ratings (vote_all u ratingId calls s)) = Some r' \<and>
                  filter (\<lambda>v. user v = uid u) (voters (helpfulVotes r')) =
                    [\<lparr>user = uid u, vote = snd (last calls),
                      votedAt = now (fst (last calls))\<rparr>] \<and>
                  upvotes (helpfulVotes r') =
                    length (filter (\<lambda>v. vote v = ''up'') (voters (helpfulVotes r'))) \<and>
                  downvotes (helpfulVotes r') =
                    length (filter (\<lambda>v. vote v = ''down'') (voters (helpfulVotes r')))"
    by (simp add: ledger_counted_def)
qed

theorem C5_vote_ledger_witness:
  "(\<exists>err. voteOnRating (clock 13 40 1704894000000) (student_of 1) 0 ''up'' rated_campus =
            (Failure err, rated_campus)) \<and>
   (\<exists>r'. voteOnRating (clock 13 40 1704894000000) (student_of 2) 0 ''up'' rated_campus =
            (Success 200, rated_campus\<lparr>Ratings := (Ratings rated_campus)[0 := r']\<rparr>) \<and>
          voters (helpfulVotes r') = [\<lparr>user = 2, vote = ''up'', votedAt = 1704894000000\<rparr>] \<and>
          upvotes (helpfulVotes r') = 1 \<and> downvotes (helpfulVotes r') = 0) \<and>
   (\<exists>r'. Rating_findById 0 (Ratings (vote_all (student_of 2) 0 two_votes rated_campus)) =
            Some r' \<and>
          filter (\<lambda>v. user v = 2) (voters (helpfulVotes r')) =
            [\<lparr>user = 2, vote = ''down'', votedAt = 1704894060000\<rparr>] \<and>
          upvotes (helpfulVotes r') =
            length (filter (\<lambda>v. vote v = ''up'') (voters (helpfulVotes r'))))"
proof -
  let ?r = "lunch_rating 1 4 \<lparr>taste = 4, quantity = 5, freshness = 3, value' = 4\<rparr> 1704891600000"
  let ?e = "clock 13 40 1704894000000"
  have h: "Rating_findById 0 (Ratings rated_campus) = Some ?r"
    by (simp add: rated_campus_def Rating_findById_def)
  have own: "student ?r = uid (student_of 1)" and other: "student ?r \<noteq> uid (student_of 2)"
    by (simp_all add: lunch_rating_def student_of_def)
  have 1: "\<exists>err. voteOnRating ?e (student_of 1) 0 ''up'' rated_campus =
            (Failure err, rated_campus)"
    using C5_vote_ledger [OF h, of "student_of 1" ?e "''up''" "[]"] own by blast
  from C5_vote_ledger [OF h, of "student_of 2" ?e "''up''" "[]"] other
  obtain r' where a: "voteOnRating ?e (student_of 2) 0 ''up'' rated_campus =
            (Success 200, rated_campus\<lparr>Ratings := (Ratings rated_campus)[0 := r']\<rparr>)"
    and b: "filter (\<lambda>v. user v = uid (student_of 2)) (voters (helpfulVotes r')) =
              [\<lparr>user = uid (student_of 2), vote = ''up'', votedAt = now ?e\<rparr>]"
    and c: "filter (\<lambda>v. user v \<noteq> uid (student_of 2)) (voters (helpfulVotes r')) =
              filter (\<lambda>v. user v \<noteq> uid (student_of 2)) (voters (helpfulVotes ?r))"
    and d: "upvotes (helpfulVotes r') =
              length (filter (\<lambda>v. vote v = ''up'') (voters (helpfulVotes r')))"
    and f: "downvotes (helpfulVotes r') =
              length (filter (\<lambda>v. vote v = ''down'') (voters (helpfulVotes r')))"
    by blast
  from c have "filter (\<lambda>v. user v \<noteq> 2) (voters (helpfulVotes r')) = []"
    by (simp add: lunch_rating_def student_of_def)
  then have "\<forall>v \<in> set (voters (helpfulVotes r')). user v = 2"
    by (simp add: filter_empty_conv)
  then have "filter (\<lambda>v. user v = 2) (voters (helpfulVotes r')) = voters (helpfulVotes r')"
    by (simp add: filter_id_conv)
  with b have vs: "voters (helpfulVotes r') = [\<lparr>user = 2, vote = ''up'', votedAt = 1704894000000\<rparr>]"
    by (simp add: student_of_def clock_def)
  from d f vs have "upvotes (helpfulVotes r') = 1" "downvotes (helpfulVotes r') = 0" by simp_all
  with a vs have 2: "\<exists>r'. voteOnRating ?e (student_of 2) 0 ''up'' rated_campus =
            (Success 200, rated_campus\<lparr>Ratings := (Ratings rated_campus)[0 := r']\<rparr>) \<and>
          voters (helpfulVotes r') = [\<lparr>user = 2, vote = ''up'', votedAt = 1704894000000\<rparr>] \<and>
          upvotes (helpfulVotes r') = 1 \<and> downvotes (helpfulVotes r') = 0"
    by blast
  have calls: "two_votes \<noteq> []" "\<forall>c \<in> set two_votes. snd c = ''up'' \<or> snd c = ''down''"
    by (simp_all add: two_votes_def)
  from C5_vote_ledger [OF h, of "student_of 2" ?e "''up''" two_votes] other calls
  obtain r2 where "Rating_findById 0 (Ratings (vote_all (student_of 2) 0 two_votes rated_campus))
                     = Some r2"
    and "filter (\<lambda>v. user v = uid (student_of 2)) (voters (helpfulVotes r2)) =
           [\<lparr>user = uid (student_of 2), vote = snd (last two_votes),
             votedAt = now (fst (last two_votes))\<rparr>]"
    and "upvotes (helpfulVotes r2) =
           length (filter (\<lambda>v. vote v = ''up'') (voters (helpfulVotes r2)))"
    by blast
  then have 3: "\<exists>r'. Rating_findById 0 (Ratings (vote_all (student_of 2) 0 two_votes rated_campus)) =
            Some r' \<and>
          filter (\<lambda>v. user v = 2) (voters (helpfulVotes r')) =
            [\<lparr>user = 2, vote = ''down'', votedAt = 1704894060000\<rparr>] \<and>
          upvotes (helpfulVotes r') =
            length (filter (\<lambda>v. vote v = ''up'') (voters (helpfulVotes r')))"
    by (simp add: student_of_def two_votes_def clock_def)
  from 1 2 3 show ?thesis by blast
qed

section \<open>Publishing a daily menu\<close>

text \<open>
  Claim C6, amended. \<open>publishDailyMenu\<close> succeeds exactly when the menu is found under
  the admin's facility and mess type, its status is neither \<open>published\<close> nor \<open>active\<close>,
  and its item list is not empty; it then stores the menu with status \<open>published\<close>. A
  found menu that is already published or active is rejected as \<open>AlreadyPublished\<close>, and
  otherwise a found menu without items is rejected as \<open>NoMenuItems\<close>; a rejection changes
  nothing.
\<close>

theorem C6_publish_preconditions:
  "(fst (publishDailyMenu u id' s) = Success 200 \<longleftrightarrow>
      (\<exists>d. DailyMenu_findOne id' (user_facilityId u) (user_messType u) (DailyMenus s) = Some d \<and>
           status d \<noteq> Published \<and> status d \<noteq> Active \<and> menuItems d \<noteq> [])) \<and>
   (\<forall>d. DailyMenu_findOne id' (user_facilityId u) (user_messType u) (DailyMenus s) = Some d \<longrightarrow>
      (status d = Published \<or> status d = Active \<longrightarrow>
         publishDailyMenu u id' s = (Failure AlreadyPublished, s)) \<and>
      (status d \<noteq> Published \<and> status d \<noteq> Active \<and> menuItems d = [] \<longrightarrow>
         publishDailyMenu u id' s = (Failure NoMenuItems, s)) \<and>
      (status d \<noteq> Published \<and> status d \<noteq> Active \<and> menuItems d \<noteq> [] \<longrightarrow>
         publishDailyMenu u id' s =
           (Success 200,
            s\<lparr>DailyMenus := (DailyMenus s)
                 (id' \<mapsto> d\<lparr>status := Published, lastModifiedBy := Some (uid u)\<rparr>)\<rparr>)))"
  by (auto simp: publishDailyMenu_def split: option.splits)

theorem C6_publish_preconditions_witness:
  "publishDailyMenu (admin_of 9) 3 (campus_with (menu_with Draft [7])) =
     (Success 200,
      (campus_with (menu_with Draft [7]))
        \<lparr>DailyMenus := (DailyMenus (campus_with (menu_with Draft [7])))
           (3 \<mapsto> (menu_with Draft [7])\<lparr>status := Published, lastModifiedBy := Some 9\<rparr>)\<rparr>) \<and>
   publishDailyMenu (admin_of 9) 3 (campus_with (menu_with Draft [])) =
     (Failure NoMenuItems, campus_with (menu_with Draft [])) \<and>
   publishDailyMenu (admin_of 9) 3 (campus_with (menu_with Published [7])) =
     (Failure AlreadyPublished, campus_with (menu_with Published [7])) \<and>
   fst (publishDailyMenu (admin_of 9) 4 (campus_with (menu_with Draft [7]))) \<noteq> Success 200"
proof -
  have f: "DailyMenu_findOne 3 (user_facilityId (admin_of 9)) (user_messType (admin_of 9))
             (DailyMenus (campus_with (menu_with st items))) = Some (menu_with st items)"
    for st items
    by (simp add: DailyMenu_findOne_def user_facilityId_def user_messType_def admin_of_def
        menu_with_def campus_with_def)
  have n: "DailyMenu_findOne 4 (user_facilityId (admin_of 9)) (user_messType (admin_of 9))
             (DailyMenus (campus_with (menu_with Draft [7]))) = None"
    by (simp add: DailyMenu_findOne_def campus_with_def)
  have st: "status (menu_with st items) = st" "menuItems (menu_with st items) = items"
    for st items by (simp_all add: menu_with_def)
  have u: "uid (admin_of 9) = 9" by (simp add: admin_of_def)
  from C6_publish_preconditions [of "admin_of 9" 3 "campus_with (menu_with Draft [7])"] f [of Draft "[7]"]
  have 1: "publishDailyMenu (admin_of 9) 3 (campus_with (menu_with Draft [7])) =
     (Success 200,
      (campus_with (menu_with Draft [7]))
        \<lparr>DailyMenus := (DailyMenus (campus_with (menu_with Draft [7])))
           (3 \<mapsto> (menu_with Draft [7])\<lparr>status := Published, lastModifiedBy := Some 9\<rparr>)\<rparr>)"
    by (simp add: st u)
  from C6_publish_preconditions [of "admin_of 9" 3 "campus_with (menu_with Draft [])"] f [of Draft "[]"]
  have 2: "publishDailyMenu (admin_of 9) 3 (campus_with (menu_with Draft [])) =
     (Failure NoMenuItems, campus_with (menu_with Draft []))"
    by (simp add: st)
  from C6_publish_preconditions [of "admin_of 9" 3 "campus_with (menu_with Published [7])"] f [of Published "[7]"]
  have 3: "publishDailyMenu (admin_of 9) 3 (campus_with (menu_with Published [7])) =
     (Failure AlreadyPublished, campus_with (menu_with Published [7]))"
    by (simp add: st)
  from C6_publish_preconditions [of "admin_of 9" 4 "campus_with (menu_with Draft [7])"] n
  have 4: "fst (publishDailyMenu (admin_of 9) 4 (campus_with (menu_with Draft [7]))) \<noteq> Success 200"
    by simp
  from 1 2 3 4 show ?thesis by blast
qed

text \<open>
  Claim C6 as stated, refuted. A menu whose status is \<open>completed\<close>, not \<open>draft\<close>, and
  which lists one item is published again by the call.
\<close>

theorem C6_completed_menu_republished_counterexample:
  "status (menu_with Completed [7]) \<noteq> Draft \<and>
   DailyMenus (campus_with (menu_with Completed [7])) 3 = Some (menu_with Completed [7]) \<and>
   fst (publishDailyMenu (admin_of 9) 3 (campus_with (menu_with Completed [7]))) = Success 200 \<and>
   map_option status
     (DailyMenus (snd (publishDailyMenu (admin_of 9) 3 (campus_with (menu_with Completed [7])))) 3)
     = Some Published"
  by (simp add: publishDailyMenu_def DailyMenu_findOne_def user_facilityId_def
      user_messType_def admin_of_def menu_with_def campus_with_def)

section \<open>Adding a mess\<close>

lemma find_Some_ex: "(\<exists>x. find P xs = Some x) \<longleftrightarrow> (\<exists>x \<in> set xs. P x)"
  by (induction xs) auto


lemma decimal_numeral:
  "decimal (numeral k) =
     (if (numeral k :: nat) < 10 then [char_of (48 + (numeral k :: nat))]
      else decimal (numeral k div 10) @ [char_of (48 + (numeral k :: nat) mod 10)])"
  by (rule decimal.simps)

lemma decimal_1: "decimal (Suc 0) = ''1''"
  by (simp add: decimal.simps [of "Suc 0"] char_of_eq_iff)

lemma char_eq_char_of: "c = char_of (n::nat) \<longleftrightarrow> take_bit 8 n = of_char c"
  using char_of_eq_iff [of n c] by auto

lemmas string_defs = make_messId_def slug_def toLowerCase_def toLowerCase_char_def is_space_def
  show_number_def decimal_numeral decimal_1 char_of_eq_iff char_eq_char_of


text \<open>
  The HTTP handler \<open>addMessToFacility\<close> is a different function: it never stores a mess,
  since the entry it pushes has no \<open>messId\<close>, and its name check is the exact one.
\<close>

lemma addMessToFacility_never_stores:
  "snd (addMessToFacility e body coll) = coll \<and>
   fst (addMessToFacility e body coll) \<noteq> Success n"
  by (simp add: addMessToFacility_def mess_schema_ok_def Let_def split: option.splits)

section \<open>Creating a facility\<close>

lemma createFacility_conflict:
  assumes "\<exists>f \<in> set coll. fac_name f = fb_name body"
  shows "createFacility e u body coll = (Failure FacilityExists, coll)"
proof -
  from assms obtain f where "find (\<lambda>f. fac_name f = fb_name body) coll = Some f"
    using find_Some_ex [of "\<lambda>f. fac_name f = fb_name body" coll] by blast
  then show ?thesis by (simp add: createFacility_def)
qed

lemma createFacility_never_stores:
  "snd (createFacility e u body coll) = coll \<and> fst (createFacility e u body coll) \<noteq> Success n"
  by (simp add: createFacility_def Facility_create_def facility_schema_ok_def
      mess_schema_ok_def split: option.splits)

text \<open>
  Claim C8 on the code. \<open>createFacility\<close> builds the initial mess without a \<open>messId\<close>,
  which the Facility schema requires, so \<open>Facility.create\<close> throws a validation error and
  the handler answers with status 500: no request makes it store a facility. On an empty
  collection the request for facility SJ Hall with mess SJ Mess fails in this way, while
  the registration handler, which builds the id first, stores the facility with the mess
  id \<open>sj_hall_sj_mess_1704880800000\<close>.
\<close>

theorem C8_createFacility_without_messId:
  "createFacility (clock 10 0 1704880800000) (admin_of 9) sj_request [] =
     (Failure ServerError, []) \<and>
   register_newFacility (clock 10 0 1704880800000) ''Asha'' sj_request [] =
     Inr [\<lparr>fac_name = ''SJ Hall'', fac_type = College,
           messes = [\<lparr>mess_name = ''SJ Mess'',
                      messId = Some ''sj_hall_sj_mess_1704880800000'',
                      description = Some ''SJ Mess - Managed by Asha'', capacity = None,
                      mess_isActive = True, mess_createdAt = 1704880800000\<rparr>],
           fac_isActive = True, createdBy = None\<rparr>]"
  by (simp add: createFacility_def register_newFacility_def Facility_create_def
      facility_schema_ok_def mess_schema_ok_def sj_request_def clock_def string_defs)

section \<open>The mess type of a stored rating\<close>

text \<open>
  Claim C10. Whenever \<open>submitRating\<close> stores a rating, the stored \<open>messType\<close> is
  \<open>college_mess\<close> if the principal's \<open>adminFacility\<close> has facility type college and
  \<open>hostel_mess\<close> otherwise; the selected facility and the body are not consulted. In
  particular every principal without a college \<open>adminFacility\<close>, so every student, gets
  \<open>hostel_mess\<close>.
\<close>

theorem C10_messType_from_adminFacility:
  assumes "Ratings (snd (submitRating e u b s)) \<noteq> Ratings s"
  shows "\<exists>rt. Ratings (snd (submitRating e u b s)) = Ratings s @ [rt] \<and>
              messType rt = (if ref_facilityType (adminFacility u) = Some College
                             then College_mess else Hostel_mess) \<and>
              (ref_facilityType (adminFacility u) \<noteq> Some College \<longrightarrow>
                 messType rt = Hostel_mess)"
  using assms
  by (auto simp: submitRating_def Rating_create_def Let_def split: option.splits if_splits)

theorem C10_messType_from_adminFacility_witness:
  "ref_facilityType (selectedFacility (student_of 1)) = Some College \<and>
   (\<exists>rt. Ratings (snd (submitRating (clock 13 0 1704891600000) (student_of 1)
                          (lunch_body 5 fives) campus)) = Ratings campus @ [rt] \<and>
         messType rt = Hostel_mess)"
proof -
  have stored: "Ratings (snd (submitRating (clock 13 0 1704891600000) (student_of 1)
                                (lunch_body 5 fives) campus)) \<noteq> Ratings campus"
    by (simp add: sample_defs fives_def submit_defs)
  have adm: "ref_facilityType (adminFacility (student_of 1)) \<noteq> Some College"
    and sel: "ref_facilityType (selectedFacility (student_of 1)) = Some College"
    by (simp_all add: student_of_def)
  from C10_messType_from_adminFacility [OF stored] adm sel show ?thesis by auto
qed


end
